theory Spec2Isabelle
  imports Complex_Main
begin

section \<open>Growth models: parameters, forward evaluation and fitting\<close>

text \<open>
  A shallow embedding of the package \<^verbatim>\<open>growth_modeling\<close>: the base class
  \<^verbatim>\<open>Growth\<close> (growth.py) and its subclasses \<^verbatim>\<open>LogisticGrowth\<close>,
  \<^verbatim>\<open>RichardGrowth\<close>, \<^verbatim>\<open>ExponentialGeneralizedGrowth\<close> and
  \<^verbatim>\<open>LogisticSigmoidGrowth\<close>.

  The base class is abstract (its \<^verbatim>\<open>compute_y\<close> and \<^verbatim>\<open>compute_t\<close> raise
  \<^verbatim>\<open>NotImplementedError\<close>, its signature is a placeholder, and no subclass defines
  \<^verbatim>\<open>compute_t\<close>): the objects of the model are those of the four subclasses.

  Conventions of the embedding.
  \<^item> The development is about control flow, errors and state. The arithmetic of the
    laws is written in exact real arithmetic, operation by operation as in the source:
    the program computes the same expressions in binary floating point, so its values
    are roundings of these, and a test made on a rounded value (is an exponent a whole
    number?) may come out differently. Overflow is not modelled. No statement below
    asserts a computed value except at inputs where every floating-point operation is
    exact.
  \<^item> Where Python or numpy leave the finite reals the model says so: a zero divisor of a
    scalar division raises \<^verbatim>\<open>ZeroDivisionError\<close> (parameters and \<^verbatim>\<open>y_0\<close> are
    Python floats); a value that is nan, infinite or complex is \<open>None\<close>, and raises
    nothing.
  \<^item> The times \<open>t\<close> are a one-dimensional array of floats, a \<^typ>\<open>real list\<close>;
    arithmetic on it is element by element.
  \<^item> A \<^verbatim>\<open>dict\<close> is an association list in insertion order; the keys of a
    Python dict are distinct.
  \<^item> A method that can raise returns \<open>error + 'a\<close>; a method whose effect on the
    object matters returns the object after the call as well.
  \<^item> \<^verbatim>\<open>scipy.optimize.curve_fit\<close> and \<^verbatim>\<open>scipy.integrate.solve_ivp\<close>
    are not part of the package: they are parameters of the model. What
    \<^verbatim>\<open>solve_ivp\<close> documents about its argument \<^verbatim>\<open>t_eval\<close> is written down
    separately, around an arbitrary numerical method.
\<close>

subsection \<open>Errors\<close>

text \<open>The two \<^verbatim>\<open>assert\<close> statements of growth.py, told apart by their place.\<close>

datatype assertion =
    KeysMatchSignature   \<comment> \<open>\<^verbatim>\<open>assert set(self.params.keys()) == set(self.params_signature)\<close>\<close>
  | ArgsMatchSignature   \<comment> \<open>\<^verbatim>\<open>assert len(args) == len(self.params_signature)\<close>\<close>

datatype error =
    AssertionError assertion
  | UnsetY0              \<comment> \<open>\<^verbatim>\<open>Exception('"y_0" attribute must be set before calling compute_y.')\<close>\<close>
  | ZeroDivisionError
  | KeyError
  | IndexError
  | ValueError
  | RuntimeError

subsection \<open>Numbers\<close>

text \<open>A computed value: \<open>None\<close> when it is not a finite real (nan, infinite, complex).\<close>

type_synonym npfloat = "real option"

definition is_integer :: "real \<Rightarrow> bool" where
  "is_integer e = (of_int \<lfloor>e\<rfloor> = e)"

definition neg_base_power :: "real \<Rightarrow> real \<Rightarrow> real" where
  \<comment> \<open>\<open>x ** e\<close> for \<open>x < 0\<close> and an integer-valued \<open>e\<close>\<close>
  "neg_base_power x e = (if even \<lfloor>e\<rfloor> then 1 else - 1) * ((- x) powr e)"

definition py_div :: "real \<Rightarrow> real \<Rightarrow> error + real" where
  \<comment> \<open>\<open>x / d\<close> on Python floats (on numpy scalars, as \<open>fit\<close> stores them, a zero
      divisor gives an infinite value and a warning instead)\<close>
  "py_div x d = (if d = 0 then Inl ZeroDivisionError else Inr (x / d))"

definition py_pow :: "real \<Rightarrow> real \<Rightarrow> error + npfloat" where
  \<comment> \<open>\<open>x ** e\<close> on Python floats; a negative base with a fractional exponent gives a
      complex number and raises nothing\<close>
  "py_pow x e =
     (if 0 < x then Inr (Some (x powr e))
      else if x = 0 then
        (if 0 < e then Inr (Some 0) else if e = 0 then Inr (Some 1) else Inl ZeroDivisionError)
      else if is_integer e then Inr (Some (neg_base_power x e))
      else Inr None)"

definition np_power :: "real \<Rightarrow> real \<Rightarrow> npfloat" where
  \<comment> \<open>one element of \<open>array ** e\<close>: nan and inf are \<open>None\<close>\<close>
  "np_power x e =
     (if 0 < x then Some (x powr e)
      else if x = 0 then
        (if 0 < e then Some 0 else if e = 0 then Some 1 else None)
      else if is_integer e then Some (neg_base_power x e)
      else None)"

subsection \<open>The class \<^verbatim>\<open>Growth\<close> and its subclasses\<close>

datatype variant =
    LogisticGrowth
  | RichardGrowth
  | ExponentialGeneralizedGrowth
  | LogisticSigmoidGrowth

type_synonym pydict = "(string \<times> real) list"

type_synonym bounds_t = "real list \<times> real list"

record growth =
  variant :: variant
  params :: pydict
  bounds :: bounds_t
  y_0 :: "real option"   \<comment> \<open>\<open>None\<close> is the sentinel \<^verbatim>\<open>NotImplemented\<close>\<close>

text \<open>\<^verbatim>\<open>self.params_signature\<close>, fixed by each subclass in its \<^verbatim>\<open>__init__\<close>.\<close>

fun params_signature :: "variant \<Rightarrow> string list" where
  "params_signature LogisticGrowth = [''a'', ''t_0'', ''K'']"
| "params_signature RichardGrowth = [''a'', ''b'', ''d'', ''K'']"
| "params_signature ExponentialGeneralizedGrowth = [''a'', ''p'']"
| "params_signature LogisticSigmoidGrowth = [''a'', ''c'', ''K'']"

text \<open>\<^verbatim>\<open>d[k]\<close> and \<^verbatim>\<open>d[k] = v\<close> on a dict.\<close>

definition dict_get :: "pydict \<Rightarrow> string \<Rightarrow> error + real" where
  "dict_get d k = (case map_of d k of None \<Rightarrow> Inl KeyError | Some v \<Rightarrow> Inr v)"

fun dict_set :: "pydict \<Rightarrow> string \<Rightarrow> real \<Rightarrow> pydict" where
  "dict_set [] k v = [(k, v)]"
| "dict_set ((k', v') # d) k v =
     (if k' = k then (k, v) # d else (k', v') # dict_set d k v)"

definition keys :: "pydict \<Rightarrow> string list" where
  "keys d = map fst d"

text \<open>\<^verbatim>\<open>Growth._check_params\<close>\<close>

definition check_params :: "growth \<Rightarrow> error + unit" where
  "check_params m =
     (if set (keys (params m)) = set (params_signature (variant m)) then Inr ()
      else Inl (AssertionError KeysMatchSignature))"

text \<open>The generator \<^verbatim>\<open>(self.params[k] for k in self.params_signature)\<close>, consumed.\<close>

fun lookup_all :: "pydict \<Rightarrow> string list \<Rightarrow> error + real list" where
  "lookup_all d [] = Inr []"
| "lookup_all d (k # ks) =
     (case dict_get d k of
        Inl e \<Rightarrow> Inl e
      | Inr v \<Rightarrow> (case lookup_all d ks of Inl e \<Rightarrow> Inl e | Inr vs \<Rightarrow> Inr (v # vs)))"

text \<open>\<^verbatim>\<open>Growth._get_compute_parameters\<close>\<close>

definition get_compute_parameters :: "growth \<Rightarrow> real list \<Rightarrow> error + real list" where
  "get_compute_parameters m args =
     (if length args > 0 then
        (if length args = length (params_signature (variant m)) then Inr args
         else Inl (AssertionError ArgsMatchSignature))
      else
        (case check_params m of
           Inl e \<Rightarrow> Inl e
         | Inr _ \<Rightarrow> lookup_all (params m) (params_signature (variant m))))"

text \<open>
  The constructors: \<^verbatim>\<open>super().__init__(params, bounds)\<close>, the signature, the check;
  the two subclasses with an initial response then set \<^verbatim>\<open>y_0 = NotImplemented\<close>
  (the other two have no such attribute: the field stays \<open>None\<close> and is never read).
\<close>

definition init :: "variant \<Rightarrow> pydict \<Rightarrow> bounds_t \<Rightarrow> error + growth" where
  "init v ps b =
     (let m = \<lparr>variant = v, params = ps, bounds = b, y_0 = None\<rparr>
      in case check_params m of Inl e \<Rightarrow> Inl e | Inr _ \<Rightarrow> Inr m)"

subsection \<open>Forward evaluation\<close>

text \<open>\<^verbatim>\<open>LogisticGrowth.compute_y\<close>: \<^verbatim>\<open>K / (1 + np.exp(- a * (t - t_0)))\<close>\<close>

definition logistic_compute_y :: "growth \<Rightarrow> real list \<Rightarrow> real list \<Rightarrow> error + npfloat list" where
  "logistic_compute_y m t args =
     (case get_compute_parameters m args of
        Inl e \<Rightarrow> Inl e
      | Inr [a, t_0, K] \<Rightarrow> Inr (map (\<lambda>ti. Some (K / (1 + exp (- a * (ti - t_0))))) t)
      | Inr _ \<Rightarrow> Inl ValueError)"

text \<open>\<^verbatim>\<open>RichardGrowth.compute_y\<close>: \<^verbatim>\<open>K * (1 + np.exp(d - a * b * t)) ** (- 1 / b)\<close>\<close>

definition richard_compute_y :: "growth \<Rightarrow> real list \<Rightarrow> real list \<Rightarrow> error + npfloat list" where
  "richard_compute_y m t args =
     (case get_compute_parameters m args of
        Inl e \<Rightarrow> Inl e
      | Inr [a, b, d, K] \<Rightarrow>
          (case py_div (- 1) b of
             Inl e \<Rightarrow> Inl e
           | Inr ex \<Rightarrow>
               Inr (map (\<lambda>ti. map_option (\<lambda>v. K * v) (np_power (1 + exp (d - a * b * ti)) ex)) t))
      | Inr _ \<Rightarrow> Inl ValueError)"

text \<open>
  \<^verbatim>\<open>ExponentialGeneralizedGrowth.compute_y\<close>:
  \<^verbatim>\<open>((1 - p) * a * t + (1 / self.y_0) ** (p - 1)) ** (-1/(p-1))\<close>,
  the operands evaluated from left to right. When the inner power is complex, so is
  every element of the result.
\<close>

definition exponential_generalized_compute_y ::
  "growth \<Rightarrow> real list \<Rightarrow> real list \<Rightarrow> error + npfloat list" where
  "exponential_generalized_compute_y m t args =
     (case y_0 m of
        None \<Rightarrow> Inl UnsetY0
      | Some y0 \<Rightarrow>
          (case get_compute_parameters m args of
             Inl e \<Rightarrow> Inl e
           | Inr [a, p] \<Rightarrow>
               (case py_div 1 y0 of
                  Inl e \<Rightarrow> Inl e
                | Inr r \<Rightarrow>
                    (case py_pow r (p - 1) of
                       Inl e \<Rightarrow> Inl e
                     | Inr s \<Rightarrow>
                         (case py_div (- 1) (p - 1) of
                            Inl e \<Rightarrow> Inl e
                          | Inr ex \<Rightarrow>
                              Inr (map (\<lambda>ti.
                                     case s of
                                       None \<Rightarrow> None
                                     | Some s' \<Rightarrow> np_power ((1 - p) * a * ti + s') ex) t))))
           | Inr _ \<Rightarrow> Inl ValueError))"

text \<open>
  \<^verbatim>\<open>LogisticSigmoidGrowth.compute_y\<close>. The right-hand side \<^verbatim>\<open>dydt\<close> is called by
  the integrator on arrays, so a zero denominator gives nan or inf, not an exception.
  The integrator takes the right-hand side, the span, the initial values and the
  evaluation points, and returns \<^verbatim>\<open>out.y.flatten()\<close> or raises.
\<close>

definition dydt :: "real \<Rightarrow> real \<Rightarrow> real \<Rightarrow> real \<Rightarrow> real \<Rightarrow> npfloat" where
  "dydt a c K t y =
     (if K - y + c * y = 0 then None else Some ((a * y * (K - y)) / (K - y + c * y)))"

type_synonym integrator =
  "(real \<Rightarrow> real \<Rightarrow> npfloat) \<Rightarrow> real \<times> real \<Rightarrow> real list \<Rightarrow> real list \<Rightarrow> error + npfloat list"

text \<open>The builtin \<^verbatim>\<open>max\<close>: \<^verbatim>\<open>ValueError\<close> on an empty sequence.\<close>

definition py_max :: "real list \<Rightarrow> error + real" where
  "py_max t = (case t of [] \<Rightarrow> Inl ValueError | x # xs \<Rightarrow> Inr (fold max xs x))"

definition logistic_sigmoid_compute_y ::
  "integrator \<Rightarrow> growth \<Rightarrow> real list \<Rightarrow> real list \<Rightarrow> error + npfloat list" where
  "logistic_sigmoid_compute_y solve_ivp m t args =
     (case y_0 m of
        None \<Rightarrow> Inl UnsetY0
      | Some y0 \<Rightarrow>
          (case get_compute_parameters m args of
             Inl e \<Rightarrow> Inl e
           | Inr [a, c, K] \<Rightarrow>
               (case py_max t of
                  Inl e \<Rightarrow> Inl e
                | Inr tmax \<Rightarrow> solve_ivp (dydt a c K) (0, tmax) [y0] t)
           | Inr _ \<Rightarrow> Inl ValueError))"

text \<open>
  \<^verbatim>\<open>self.compute_y(t, *args)\<close>: dispatch on the class. No \<^verbatim>\<open>compute_y\<close> assigns
  to an attribute, so the object after the call is the object before it.
\<close>

definition compute_y ::
  "integrator \<Rightarrow> growth \<Rightarrow> real list \<Rightarrow> real list \<Rightarrow> (error + npfloat list) \<times> growth" where
  "compute_y solve_ivp m t args =
     (case variant m of
        LogisticGrowth \<Rightarrow> (logistic_compute_y m t args, m)
      | RichardGrowth \<Rightarrow> (richard_compute_y m t args, m)
      | ExponentialGeneralizedGrowth \<Rightarrow> (exponential_generalized_compute_y m t args, m)
      | LogisticSigmoidGrowth \<Rightarrow> (logistic_sigmoid_compute_y solve_ivp m t args, m))"

subsection \<open>Fitting\<close>

text \<open>
  \<^verbatim>\<open>curve_fit(f, xdata, ydata, bounds=..., p0=...)\<close>: the fitted parameters, or an
  exception.
\<close>

type_synonym optimizer =
  "(real list \<Rightarrow> real list \<Rightarrow> error + npfloat list) \<Rightarrow> real list \<Rightarrow> real list \<Rightarrow> bounds_t \<Rightarrow>
   real list \<Rightarrow> error + real list"

text \<open>
  The loop \<^verbatim>\<open>for i, key in enumerate(self.params.keys()): self.params[key] = fit_params[i]\<close>:
  an index past the end of \<^verbatim>\<open>fit_params\<close> raises \<^verbatim>\<open>IndexError\<close> and leaves the
  assignments made so far.
\<close>

fun assign_fitted :: "nat \<Rightarrow> string list \<Rightarrow> real list \<Rightarrow> pydict \<Rightarrow> (error + unit) \<times> pydict" where
  "assign_fitted i [] fit_params d = (Inr (), d)"
| "assign_fitted i (key # ks) fit_params d =
     (if i < length fit_params
      then assign_fitted (Suc i) ks fit_params (dict_set d key (fit_params ! i))
      else (Inl IndexError, d))"

text \<open>
  \<^verbatim>\<open>Growth.fit(self, t, y, p0=[])\<close>. The body never mentions \<^verbatim>\<open>p0\<close>: the
  starting point handed to \<^verbatim>\<open>curve_fit\<close> is \<^verbatim>\<open>tuple(self._get_compute_parameters())\<close>.
\<close>

definition fit ::
  "optimizer \<Rightarrow> integrator \<Rightarrow> growth \<Rightarrow> real list \<Rightarrow> real list \<Rightarrow> real list \<Rightarrow>
   (error + unit) \<times> growth" where
  "fit curve_fit solve_ivp m t y p0 =
     (case get_compute_parameters m [] of
        Inl e \<Rightarrow> (Inl e, m)
      | Inr start \<Rightarrow>
          (case curve_fit (\<lambda>t' args. fst (compute_y solve_ivp m t' args)) t y (bounds m) start of
             Inl e \<Rightarrow> (Inl e, m)
           | Inr fit_params \<Rightarrow>
               (case assign_fitted 0 (keys (params m)) fit_params (params m) of
                  (r, d) \<Rightarrow> (r, m\<lparr>params := d\<rparr>))))"

subsection \<open>What \<^verbatim>\<open>solve_ivp\<close> requires of \<^verbatim>\<open>t_eval\<close>\<close>

text \<open>
  The documentation of \<^verbatim>\<open>scipy.integrate.solve_ivp\<close> on \<^verbatim>\<open>t_eval\<close>: ``Times at which
  to store the computed solution, must be sorted and lie within \<^verbatim>\<open>t_span\<close>''. The
  function tests both before it integrates and raises \<^verbatim>\<open>ValueError\<close>:
  \<^verbatim>\<open>
  if np.any(t_eval < min(t0, tf)) or np.any(t_eval > max(t0, tf)):
      raise ValueError("Values in `t_eval` are not within `t_span`.")
  d = np.diff(t_eval)
  if tf > t0 and np.any(d <= 0) or tf < t0 and np.any(d >= 0):
      raise ValueError("Values in `t_eval` are not properly sorted.")
  \<close>
  \<open>scipy_solve_ivp method\<close> is \<^verbatim>\<open>solve_ivp\<close> with these tests in front of an
  arbitrary numerical method.
\<close>

definition t_eval_within :: "real \<times> real \<Rightarrow> real list \<Rightarrow> bool" where
  "t_eval_within t_span t_eval =
     list_all (\<lambda>x. min (fst t_span) (snd t_span) \<le> x \<and> x \<le> max (fst t_span) (snd t_span)) t_eval"

definition t_eval_sorted :: "real \<times> real \<Rightarrow> real list \<Rightarrow> bool" where
  "t_eval_sorted t_span t_eval =
     (if fst t_span < snd t_span then sorted_wrt (<) t_eval
      else if snd t_span < fst t_span then sorted_wrt (>) t_eval
      else True)"

definition scipy_solve_ivp :: "integrator \<Rightarrow> integrator" where
  "scipy_solve_ivp method rhs t_span y0 t_eval =
     (if \<not> t_eval_within t_span t_eval then Inl ValueError
      else if \<not> t_eval_sorted t_span t_eval then Inl ValueError
      else method rhs t_span y0 t_eval)"

subsection \<open>Stand-ins for the two collaborators, for concrete evaluation\<close>

definition failing_integrator :: integrator where
  "failing_integrator rhs t_span y0 t_eval = Inl RuntimeError"

definition constant_integrator :: integrator where
  \<comment> \<open>succeeds on every input, with one value per evaluation point\<close>
  "constant_integrator rhs t_span y0 t_eval = Inr (map (\<lambda>_. Some (hd y0)) t_eval)"

definition failing_optimizer :: "error \<Rightarrow> optimizer" where
  "failing_optimizer e f t y b start = Inl e"

definition returning_optimizer :: "real list \<Rightarrow> optimizer" where
  "returning_optimizer fitted f t y b start = Inr fitted"

definition identity_optimizer :: optimizer where
  \<comment> \<open>converges at once: the fitted parameters are the starting point\<close>
  "identity_optimizer f t y b start = Inr start"

section \<open>Properties\<close>

subsection \<open>Parameter resolution\<close>

lemma sig_length_pos: "0 < length (params_signature v)"
  by (cases v) simp_all

lemma sig_distinct: "distinct (params_signature v)"
  by (cases v) simp_all

lemma lookup_all_total:
  "set ks \<subseteq> set (keys d) \<Longrightarrow> lookup_all d ks = Inr (map (\<lambda>k. the (map_of d k)) ks)"
proof (induction ks)
  case Nil
  then show ?case by simp
next
  case (Cons k ks)
  then have "k \<in> fst ` set d" by (simp add: keys_def)
  then obtain v where "map_of d k = Some v"
    by (metis domIff dom_map_of_conv_image_fst not_Some_eq)
  with Cons show ?case by (simp add: dict_get_def)
qed

lemma get_compute_parameters_stored:
  "get_compute_parameters m [] =
     (if set (keys (params m)) = set (params_signature (variant m))
      then Inr (map (\<lambda>k. the (map_of (params m) k)) (params_signature (variant m)))
      else Inl (AssertionError KeysMatchSignature))"
  by (simp add: get_compute_parameters_def check_params_def lookup_all_total)

lemma get_compute_parameters_override:
  "args \<noteq> [] \<Longrightarrow> get_compute_parameters m args =
     (if length args = length (params_signature (variant m)) then Inr args
      else Inl (AssertionError ArgsMatchSignature))"
  by (simp add: get_compute_parameters_def)

text \<open>
  C4. The signature-mismatch assertion fails exactly when the key set of \<open>params\<close>
  differs from the set of names in the class's signature. It is made
  \<^item> by the constructor of every subclass: construction fails with it exactly when the
    key sets differ, and otherwise gives the object with the parameters and bounds as
    supplied;
  \<^item> by \<^verbatim>\<open>_get_compute_parameters\<close> whenever no override is given, again exactly when
    the key sets differ, and never when an override is given;
  \<^item> so by every \<^verbatim>\<open>compute_y\<close> called without an override that reaches parameter
    resolution (the two classes with \<^verbatim>\<open>y_0\<close> reach it once \<^verbatim>\<open>y_0\<close> is set), and by
    every \<^verbatim>\<open>fit\<close>, which always resolves from the stored parameters. Both leave the
    object as it was.
\<close>

theorem signature_mismatch_checked:
  "((init v ps b = Inl (AssertionError KeysMatchSignature))
      = (set (keys ps) \<noteq> set (params_signature v)))
   \<and> (set (keys ps) = set (params_signature v) \<longrightarrow>
        init v ps b = Inr \<lparr>variant = v, params = ps, bounds = b, y_0 = None\<rparr>)
   \<and> ((get_compute_parameters m [] = Inl (AssertionError KeysMatchSignature))
        = (set (keys (params m)) \<noteq> set (params_signature (variant m))))
   \<and> (args \<noteq> [] \<longrightarrow> get_compute_parameters m args \<noteq> Inl (AssertionError KeysMatchSignature))
   \<and> (set (keys (params m)) \<noteq> set (params_signature (variant m))
        \<and> (variant m = ExponentialGeneralizedGrowth \<or> variant m = LogisticSigmoidGrowth
             \<longrightarrow> y_0 m \<noteq> None)
        \<longrightarrow> compute_y solve_ivp m t [] = (Inl (AssertionError KeysMatchSignature), m))
   \<and> (set (keys (params m)) \<noteq> set (params_signature (variant m))
        \<longrightarrow> fit curve_fit solve_ivp m t y p0 = (Inl (AssertionError KeysMatchSignature), m))"
proof (intro conjI impI)
  show "(init v ps b = Inl (AssertionError KeysMatchSignature))
      = (set (keys ps) \<noteq> set (params_signature v))"
    by (simp add: init_def check_params_def)
  show "init v ps b = Inr \<lparr>variant = v, params = ps, bounds = b, y_0 = None\<rparr>"
    if "set (keys ps) = set (params_signature v)"
    using that by (simp add: init_def check_params_def)
  show "(get_compute_parameters m [] = Inl (AssertionError KeysMatchSignature))
        = (set (keys (params m)) \<noteq> set (params_signature (variant m)))"
    by (simp add: get_compute_parameters_stored)
  show "get_compute_parameters m args \<noteq> Inl (AssertionError KeysMatchSignature)"
    if "args \<noteq> []"
    using that by (simp add: get_compute_parameters_override)
  show "compute_y solve_ivp m t [] = (Inl (AssertionError KeysMatchSignature), m)"
    if h: "set (keys (params m)) \<noteq> set (params_signature (variant m))
        \<and> (variant m = ExponentialGeneralizedGrowth \<or> variant m = LogisticSigmoidGrowth
             \<longrightarrow> y_0 m \<noteq> None)"
  proof -
    have gp: "get_compute_parameters m [] = Inl (AssertionError KeysMatchSignature)"
      using h by (simp add: get_compute_parameters_stored)
    show ?thesis
    proof (cases "variant m")
      case LogisticGrowth
      then show ?thesis by (simp add: compute_y_def logistic_compute_y_def gp)
    next
      case RichardGrowth
      then show ?thesis by (simp add: compute_y_def richard_compute_y_def gp)
    next
      case ExponentialGeneralizedGrowth
      with h obtain y0 where "y_0 m = Some y0" by auto
      with ExponentialGeneralizedGrowth show ?thesis
        by (simp add: compute_y_def exponential_generalized_compute_y_def gp)
    next
      case LogisticSigmoidGrowth
      with h obtain y0 where "y_0 m = Some y0" by auto
      with LogisticSigmoidGrowth show ?thesis
        by (simp add: compute_y_def logistic_sigmoid_compute_y_def gp)
    qed
  qed
  show "fit curve_fit solve_ivp m t y p0 = (Inl (AssertionError KeysMatchSignature), m)"
    if "set (keys (params m)) \<noteq> set (params_signature (variant m))"
    using that by (simp add: fit_def get_compute_parameters_stored)
qed

theorem signature_mismatch_checked_witness:
  "init LogisticGrowth [(''a'', 1), (''b'', 2)] ([], []) = Inl (AssertionError KeysMatchSignature)
   \<and> init LogisticGrowth [(''K'', 100), (''a'', 1), (''t_0'', 0)] ([], [])
       = Inr \<lparr>variant = LogisticGrowth, params = [(''K'', 100), (''a'', 1), (''t_0'', 0)],
              bounds = ([], []), y_0 = None\<rparr>
   \<and> compute_y failing_integrator
        \<lparr>variant = LogisticSigmoidGrowth, params = [(''a'', 1)], bounds = ([], []), y_0 = Some 1\<rparr>
        [0] []
       = (Inl (AssertionError KeysMatchSignature),
          \<lparr>variant = LogisticSigmoidGrowth, params = [(''a'', 1)], bounds = ([], []), y_0 = Some 1\<rparr>)
   \<and> fit identity_optimizer failing_integrator
        \<lparr>variant = LogisticSigmoidGrowth, params = [(''a'', 1)], bounds = ([], []), y_0 = Some 1\<rparr>
        [0] [1] [1, 1, 100]
       = (Inl (AssertionError KeysMatchSignature),
          \<lparr>variant = LogisticSigmoidGrowth, params = [(''a'', 1)], bounds = ([], []), y_0 = Some 1\<rparr>)"
proof -
  let ?m = "\<lparr>variant = LogisticSigmoidGrowth, params = [(''a'', 1)], bounds = ([], []),
             y_0 = Some 1\<rparr>"
  note bad = signature_mismatch_checked [of LogisticGrowth "[(''a'', 1), (''b'', 2)]" "([], [])"
      ?m "[]" failing_integrator "[0]" identity_optimizer "[1]" "[1, 1, 100]"]
  note good = signature_mismatch_checked [of LogisticGrowth
      "[(''K'', 100), (''a'', 1), (''t_0'', 0)]" "([], [])"
      ?m "[]" failing_integrator "[0]" identity_optimizer "[1]" "[1, 1, 100]"]
  have "''b'' \<in> set (keys [(''a'', 1), (''b'', 2)])"
    and "''b'' \<notin> set (params_signature LogisticGrowth)"
    by (simp_all add: keys_def)
  then have k1: "set (keys [(''a'', 1), (''b'', 2)]) \<noteq> set (params_signature LogisticGrowth)"
    by metis
  have k2: "set (keys [(''K'', 100), (''a'', 1), (''t_0'', 0)])
      = set (params_signature LogisticGrowth)"
    by (auto simp: keys_def)
  have "''c'' \<notin> set (keys (params ?m))" and "''c'' \<in> set (params_signature (variant ?m))"
    by (simp_all add: keys_def)
  then have k3: "set (keys (params ?m)) \<noteq> set (params_signature (variant ?m))"
    by metis
  have y: "variant ?m = ExponentialGeneralizedGrowth \<or> variant ?m = LogisticSigmoidGrowth
      \<longrightarrow> y_0 ?m \<noteq> None"
    by simp
  have c1: "init LogisticGrowth [(''a'', 1), (''b'', 2)] ([], [])
      = Inl (AssertionError KeysMatchSignature)"
    using bad k1 by blast
  have c2: "init LogisticGrowth [(''K'', 100), (''a'', 1), (''t_0'', 0)] ([], [])
       = Inr \<lparr>variant = LogisticGrowth, params = [(''K'', 100), (''a'', 1), (''t_0'', 0)],
              bounds = ([], []), y_0 = None\<rparr>"
    using good k2 by blast
  have c3: "compute_y failing_integrator ?m [0] [] = (Inl (AssertionError KeysMatchSignature), ?m)"
    using bad k3 y by blast
  have c4: "fit identity_optimizer failing_integrator ?m [0] [1] [1, 1, 100]
      = (Inl (AssertionError KeysMatchSignature), ?m)"
    using bad k3 by blast
  from c1 c2 c3 c4 show ?thesis by (intro conjI)
qed

text \<open>
  C5, as stated: a non-empty override of the wrong length always fails with the
  argument-count assertion. It does not on \<^verbatim>\<open>ExponentialGeneralizedGrowth\<close> and
  \<^verbatim>\<open>LogisticSigmoidGrowth\<close> while \<^verbatim>\<open>y_0\<close> is unset (as it is after construction):
  the test of \<^verbatim>\<open>y_0\<close> comes first. A generalized exponential model with \<^verbatim>\<open>y_0\<close> unset,
  called with the one-element override \<open>[1]\<close> for its two parameters, raises the
  unset-state exception.
\<close>

theorem override_length_unset_y0_counterexample:
  "fst (compute_y failing_integrator
          \<lparr>variant = ExponentialGeneralizedGrowth, params = [(''a'', 1), (''p'', 1 / 2)],
           bounds = ([], []), y_0 = None\<rparr> [0] [1]) = Inl UnsetY0
   \<and> fst (compute_y failing_integrator
          \<lparr>variant = ExponentialGeneralizedGrowth, params = [(''a'', 1), (''p'', 1 / 2)],
           bounds = ([], []), y_0 = None\<rparr> [0] [1]) \<noteq> Inl (AssertionError ArgsMatchSignature)"
  by (simp add: compute_y_def exponential_generalized_compute_y_def)

text \<open>
  C5, amended. For every class, every \<open>t\<close> and every non-empty override whose length
  differs from the length of the signature, forward evaluation fails and leaves the object
  as it was: with the argument-count assertion, unless the class is one of the two with
  \<^verbatim>\<open>y_0\<close> and \<^verbatim>\<open>y_0\<close> is unset, where it fails with the unset-state exception. So no
  partial override is ever accepted.
\<close>

theorem override_length_checked:
  assumes "args \<noteq> []"
    and "length args \<noteq> length (params_signature (variant m))"
  shows "compute_y solve_ivp m t args
           = (Inl (if (variant m = ExponentialGeneralizedGrowth \<or> variant m = LogisticSigmoidGrowth)
                      \<and> y_0 m = None
                   then UnsetY0 else AssertionError ArgsMatchSignature), m)"
proof -
  have gp: "get_compute_parameters m args = Inl (AssertionError ArgsMatchSignature)"
    using assms by (simp add: get_compute_parameters_override)
  show ?thesis
  proof (cases "variant m")
    case LogisticGrowth
    then show ?thesis by (simp add: compute_y_def logistic_compute_y_def gp)
  next
    case RichardGrowth
    then show ?thesis by (simp add: compute_y_def richard_compute_y_def gp)
  next
    case ExponentialGeneralizedGrowth
    then show ?thesis
      by (cases "y_0 m") (simp_all add: compute_y_def exponential_generalized_compute_y_def gp)
  next
    case LogisticSigmoidGrowth
    then show ?thesis
      by (cases "y_0 m") (simp_all add: compute_y_def logistic_sigmoid_compute_y_def gp)
  qed
qed

theorem override_length_checked_witness:
  "compute_y failing_integrator
     \<lparr>variant = LogisticGrowth, params = [(''a'', 1), (''t_0'', 0), (''K'', 100)],
      bounds = ([], []), y_0 = None\<rparr> [0, 1] [1, 2]
   = (Inl (AssertionError ArgsMatchSignature),
      \<lparr>variant = LogisticGrowth, params = [(''a'', 1), (''t_0'', 0), (''K'', 100)],
       bounds = ([], []), y_0 = None\<rparr>)"
  using override_length_checked [of "[1, 2]"
      "\<lparr>variant = LogisticGrowth, params = [(''a'', 1), (''t_0'', 0), (''K'', 100)],
        bounds = ([], []), y_0 = None\<rparr>" failing_integrator "[0, 1]"]
  by simp

subsection \<open>An override replaces the stored parameters\<close>

lemma get_compute_parameters_override_cong:
  "args \<noteq> [] \<Longrightarrow> variant m1 = variant m2 \<Longrightarrow>
   get_compute_parameters m1 args = get_compute_parameters m2 args"
  by (simp add: get_compute_parameters_override)

text \<open>
  C10, as stated: with a full-length override the result of a closed-form class depends
  on nothing but \<open>t\<close> and the override. \<^verbatim>\<open>ExponentialGeneralizedGrowth.compute_y\<close> also
  reads \<^verbatim>\<open>self.y_0\<close>: two objects of that class, holding different parameters, one
  with \<^verbatim>\<open>y_0 = 1\<close> and one with \<^verbatim>\<open>y_0 = 4\<close>, called with the same \<open>t = [0]\<close> and the
  same override \<open>(a, p) = (1, 0)\<close>, return \<open>[1]\<close> and \<open>[4]\<close>. (Every floating-point
  operation is exact at this input.)
\<close>

theorem override_result_depends_on_y0_counterexample:
  "fst (compute_y failing_integrator
          \<lparr>variant = ExponentialGeneralizedGrowth, params = [(''a'', 1), (''p'', 1 / 2)],
           bounds = ([], []), y_0 = Some 1\<rparr> [0] [1, 0]) = Inr [Some 1]
   \<and> fst (compute_y failing_integrator
          \<lparr>variant = ExponentialGeneralizedGrowth, params = [(''a'', 2), (''p'', 0)],
           bounds = ([], []), y_0 = Some 4\<rparr> [0] [1, 0]) = Inr [Some 4]
   \<and> fst (compute_y failing_integrator
          \<lparr>variant = ExponentialGeneralizedGrowth, params = [(''a'', 1), (''p'', 1 / 2)],
           bounds = ([], []), y_0 = Some 1\<rparr> [0] [1, 0])
      \<noteq> fst (compute_y failing_integrator
          \<lparr>variant = ExponentialGeneralizedGrowth, params = [(''a'', 2), (''p'', 0)],
           bounds = ([], []), y_0 = Some 4\<rparr> [0] [1, 0])"
  by (simp add: compute_y_def exponential_generalized_compute_y_def get_compute_parameters_def
      py_div_def py_pow_def np_power_def powr_minus)

text \<open>
  C10, amended. With an override of full length, forward evaluation of a closed-form
  class (\<^verbatim>\<open>LogisticGrowth\<close>, \<^verbatim>\<open>RichardGrowth\<close>, \<^verbatim>\<open>ExponentialGeneralizedGrowth\<close>)
  depends on \<open>t\<close>, on the override and, for the generalized exponential law, on
  \<^verbatim>\<open>y_0\<close>; it never reads or changes the stored \<open>params\<close>: two objects of the same
  class (with the same \<^verbatim>\<open>y_0\<close>, for the generalized exponential law) give the same result
  for the same \<open>t\<close> and override, whatever parameters and bounds they store, and each
  object is unchanged by the call.
\<close>

theorem override_ignores_stored_params:
  assumes "variant m1 = variant m2"
    and "variant m1 \<noteq> LogisticSigmoidGrowth"
    and "variant m1 = ExponentialGeneralizedGrowth \<longrightarrow> y_0 m1 = y_0 m2"
    and "length args = length (params_signature (variant m1))"
  shows "fst (compute_y solve_ivp m1 t args) = fst (compute_y solve_ivp' m2 t args)
       \<and> snd (compute_y solve_ivp m1 t args) = m1
       \<and> snd (compute_y solve_ivp' m2 t args) = m2"
proof -
  have ne: "args \<noteq> []" using assms(4) sig_length_pos [of "variant m1"] by auto
  have gp: "get_compute_parameters m1 args = get_compute_parameters m2 args"
    using ne assms(1) by (rule get_compute_parameters_override_cong)
  have unchanged: "snd (compute_y s m t args) = m" for s m
    by (cases "variant m") (simp_all add: compute_y_def)
  have "fst (compute_y solve_ivp m1 t args) = fst (compute_y solve_ivp' m2 t args)"
  proof (cases "variant m1")
    case LogisticGrowth
    with assms(1) have "variant m2 = LogisticGrowth" by simp
    with LogisticGrowth show ?thesis by (simp add: compute_y_def logistic_compute_y_def gp)
  next
    case RichardGrowth
    with assms(1) have "variant m2 = RichardGrowth" by simp
    with RichardGrowth show ?thesis by (simp add: compute_y_def richard_compute_y_def gp)
  next
    case ExponentialGeneralizedGrowth
    with assms(1,3) have "variant m2 = ExponentialGeneralizedGrowth" and "y_0 m1 = y_0 m2"
      by simp_all
    with ExponentialGeneralizedGrowth show ?thesis
      by (simp add: compute_y_def exponential_generalized_compute_y_def gp split: option.split)
  next
    case LogisticSigmoidGrowth
    with assms(2) show ?thesis by simp
  qed
  with unchanged show ?thesis by simp
qed

theorem override_ignores_stored_params_witness:
  "fst (compute_y failing_integrator
          \<lparr>variant = ExponentialGeneralizedGrowth, params = [(''a'', 1), (''p'', 1 / 2)],
           bounds = ([0, 0], [1, 1]), y_0 = Some 4\<rparr> [0, 1] [1, 0])
   = fst (compute_y constant_integrator
          \<lparr>variant = ExponentialGeneralizedGrowth, params = [(''a'', 2), (''p'', 0)],
           bounds = ([], []), y_0 = Some 4\<rparr> [0, 1] [1, 0])
   \<and> snd (compute_y failing_integrator
          \<lparr>variant = ExponentialGeneralizedGrowth, params = [(''a'', 1), (''p'', 1 / 2)],
           bounds = ([0, 0], [1, 1]), y_0 = Some 4\<rparr> [0, 1] [1, 0])
      = \<lparr>variant = ExponentialGeneralizedGrowth, params = [(''a'', 1), (''p'', 1 / 2)],
           bounds = ([0, 0], [1, 1]), y_0 = Some 4\<rparr>
   \<and> snd (compute_y constant_integrator
          \<lparr>variant = ExponentialGeneralizedGrowth, params = [(''a'', 2), (''p'', 0)],
           bounds = ([], []), y_0 = Some 4\<rparr> [0, 1] [1, 0])
      = \<lparr>variant = ExponentialGeneralizedGrowth, params = [(''a'', 2), (''p'', 0)],
           bounds = ([], []), y_0 = Some 4\<rparr>"
  by (rule override_ignores_stored_params) simp_all

subsection \<open>The initial response must be set\<close>

text \<open>
  C6. For \<^verbatim>\<open>LogisticSigmoidGrowth\<close> and \<^verbatim>\<open>ExponentialGeneralizedGrowth\<close>, forward
  evaluation with \<^verbatim>\<open>y_0\<close> unset raises the unset-state exception for every \<open>t\<close> and
  every override, whatever the stored parameters are: the test comes before parameter
  resolution (so before both assertions) and before any arithmetic or integration. The
  object is left as it was.
\<close>

theorem unset_y0_fails_first:
  assumes "variant m = ExponentialGeneralizedGrowth \<or> variant m = LogisticSigmoidGrowth"
    and "y_0 m = None"
  shows "compute_y solve_ivp m t args = (Inl UnsetY0, m)"
  using assms
  by (auto simp: compute_y_def exponential_generalized_compute_y_def
      logistic_sigmoid_compute_y_def)

text \<open>
  An instance whose keys do not match the signature, an override of the wrong length and
  an empty \<open>t\<close>: each would raise on its own, and the unset-state exception wins.
\<close>

theorem unset_y0_fails_first_witness:
  "compute_y constant_integrator
     \<lparr>variant = LogisticSigmoidGrowth, params = [(''a'', 1)], bounds = ([], []), y_0 = None\<rparr>
     [] [1, 2]
   = (Inl UnsetY0,
      \<lparr>variant = LogisticSigmoidGrowth, params = [(''a'', 1)], bounds = ([], []), y_0 = None\<rparr>)"
  using unset_y0_fails_first [of
      "\<lparr>variant = LogisticSigmoidGrowth, params = [(''a'', 1)], bounds = ([], []), y_0 = None\<rparr>"
      constant_integrator "[]" "[1, 2]"]
  by simp

subsection \<open>The arithmetic where floating point is exact\<close>

text \<open>
  The powers and the laws at inputs where each floating-point operation of the source
  returns its exact result, and the cases that leave the finite reals: a negative base
  with a fractional exponent (nan in an array, a complex number for Python floats, no
  exception in either), a zero base with a negative exponent (infinite in an array,
  \<^verbatim>\<open>ZeroDivisionError\<close> for Python floats), and the zero divisors \<open>b = 0\<close>,
  \<open>y_0 = 0\<close> and \<open>p = 1\<close>.
\<close>

lemma np_power_examples:
  "np_power 4 (1 / 2) = Some 2"
  "np_power (- 2) 2 = Some 4"
  "np_power (- 2) 3 = Some (- 8)"
  "np_power (- 2) (1 / 2) = None"
  "np_power 0 2 = Some 0"
  "np_power 0 0 = Some 1"
  "np_power 0 (- 1) = None"
proof -
  have "(4::real) powr (1 / 2) = 2"
    by (simp add: powr_half_sqrt)
  then show "np_power 4 (1 / 2) = Some 2"
    by (simp add: np_power_def)
  have "(2::real) powr 2 = 4" and "(2::real) powr 3 = 8"
    by (simp_all add: powr_numeral)
  then show "np_power (- 2) 2 = Some 4" and "np_power (- 2) 3 = Some (- 8)"
    by (simp_all add: np_power_def is_integer_def neg_base_power_def)
  have "\<lfloor>1 / 2 :: real\<rfloor> = 0"
    by simp
  then show "np_power (- 2) (1 / 2) = None"
    by (simp add: np_power_def is_integer_def)
  show "np_power 0 2 = Some 0" and "np_power 0 0 = Some 1" and "np_power 0 (- 1) = None"
    by (simp_all add: np_power_def)
qed

lemma py_pow_examples:
  "py_pow (1 / 4) (- 1) = Inr (Some 4)"
  "py_pow (- 2) 3 = Inr (Some (- 8))"
  "py_pow (- 8) (1 / 3) = Inr None"
  "py_pow 0 0 = Inr (Some 1)"
  "py_pow 0 (- 1) = Inl ZeroDivisionError"
proof -
  show "py_pow (1 / 4) (- 1) = Inr (Some 4)"
    by (simp add: py_pow_def powr_minus)
  have "(2::real) powr 3 = 8"
    by (simp add: powr_numeral)
  then show "py_pow (- 2) 3 = Inr (Some (- 8))"
    by (simp add: py_pow_def is_integer_def neg_base_power_def)
  have "\<lfloor>1 / 3 :: real\<rfloor> = 0"
    by simp
  then show "py_pow (- 8) (1 / 3) = Inr None"
    by (simp add: py_pow_def is_integer_def)
  show "py_pow 0 0 = Inr (Some 1)" and "py_pow 0 (- 1) = Inl ZeroDivisionError"
    by (simp_all add: py_pow_def)
qed

lemma logistic_at_inflection:
  "fst (compute_y solve_ivp
          \<lparr>variant = LogisticGrowth, params = [(''a'', 1), (''t_0'', 0), (''K'', 100)],
           bounds = b, y_0 = None\<rparr> [0] []) = Inr [Some 50]"
  by (auto simp: compute_y_def logistic_compute_y_def get_compute_parameters_def
      check_params_def keys_def dict_get_def)

lemma richard_at_zero:
  "fst (compute_y solve_ivp
          \<lparr>variant = RichardGrowth, params = ps, bounds = b, y_0 = None\<rparr> [0] [1, 1, 0, 100])
     = Inr [Some 50]"
  "fst (compute_y solve_ivp
          \<lparr>variant = RichardGrowth, params = ps, bounds = b, y_0 = None\<rparr> [0] [1, 0, 0, 100])
     = Inl ZeroDivisionError"
  by (simp_all add: compute_y_def richard_compute_y_def get_compute_parameters_def py_div_def
      np_power_def powr_minus)

lemma exponential_generalized_examples:
  "fst (compute_y solve_ivp
          \<lparr>variant = ExponentialGeneralizedGrowth, params = ps, bounds = b, y_0 = Some 4\<rparr>
          [0, 1] [1, 0]) = Inr [Some 4, Some 5]"
  "fst (compute_y solve_ivp
          \<lparr>variant = ExponentialGeneralizedGrowth, params = ps, bounds = b, y_0 = Some (- 4)\<rparr>
          [0, 1] [1, 1 / 2]) = Inr [None, None]"
  "fst (compute_y solve_ivp
          \<lparr>variant = ExponentialGeneralizedGrowth, params = ps, bounds = b, y_0 = Some 0\<rparr>
          [0, 1] [1, 0]) = Inl ZeroDivisionError"
  "fst (compute_y solve_ivp
          \<lparr>variant = ExponentialGeneralizedGrowth, params = ps, bounds = b, y_0 = Some 4\<rparr>
          [0, 1] [1, 1]) = Inl ZeroDivisionError"
proof -
  have half: "\<lfloor>- (1 / 2) :: real\<rfloor> = - 1"
    by (simp add: floor_eq_iff)
  have fractional: "\<not> is_integer (- (1 / 2))"
  proof
    assume "is_integer (- (1 / 2))"
    then have "of_int \<lfloor>- (1 / 2) :: real\<rfloor> = (- (1 / 2) :: real)"
      by (simp only: is_integer_def)
    with half show False by simp
  qed
  show "fst (compute_y solve_ivp
          \<lparr>variant = ExponentialGeneralizedGrowth, params = ps, bounds = b, y_0 = Some 4\<rparr>
          [0, 1] [1, 0]) = Inr [Some 4, Some 5]"
    by (simp add: compute_y_def exponential_generalized_compute_y_def get_compute_parameters_def
        py_div_def py_pow_def np_power_def powr_minus)
  show "fst (compute_y solve_ivp
          \<lparr>variant = ExponentialGeneralizedGrowth, params = ps, bounds = b, y_0 = Some (- 4)\<rparr>
          [0, 1] [1, 1 / 2]) = Inr [None, None]"
    using fractional
    by (simp add: compute_y_def exponential_generalized_compute_y_def get_compute_parameters_def
        py_div_def py_pow_def)
  show "fst (compute_y solve_ivp
          \<lparr>variant = ExponentialGeneralizedGrowth, params = ps, bounds = b, y_0 = Some 0\<rparr>
          [0, 1] [1, 0]) = Inl ZeroDivisionError"
    by (simp add: compute_y_def exponential_generalized_compute_y_def get_compute_parameters_def
        py_div_def)
  show "fst (compute_y solve_ivp
          \<lparr>variant = ExponentialGeneralizedGrowth, params = ps, bounds = b, y_0 = Some 4\<rparr>
          [0, 1] [1, 1]) = Inl ZeroDivisionError"
    by (simp add: compute_y_def exponential_generalized_compute_y_def get_compute_parameters_def
        py_div_def py_pow_def)
qed

lemma dydt_examples:
  "dydt 1 1 100 s 50 = Some 25"
  "dydt 1 0 100 s 100 = None"
  by (simp_all add: dydt_def)

lemma py_max_examples:
  "py_max [3, 1, 2] = Inr 3"
  "py_max [] = Inl ValueError"
  by (simp_all add: py_max_def)

subsection \<open>The logistic sigmoid law\<close>

lemma py_max_nonempty: "t \<noteq> [] \<Longrightarrow> py_max t = Inr (Max (set t))"
proof (cases t)
  case Nil
  then show "t \<noteq> [] \<Longrightarrow> py_max t = Inr (Max (set t))" by simp
next
  case (Cons x xs)
  then show "py_max t = Inr (Max (set t))"
    using Max.set_eq_fold [of x xs] by (simp add: py_max_def)
qed

text \<open>
  On a non-empty \<open>t\<close> the method hands the integrator the right-hand side, the span from
  \<open>0\<close> to the largest time, \<^verbatim>\<open>[y_0]\<close> and \<open>t\<close> as it came, neither sorted nor
  otherwise rearranged, and returns the integrator's answer.
\<close>

lemma logistic_sigmoid_nonempty_t:
  assumes "variant m = LogisticSigmoidGrowth"
    and "y_0 m = Some y0"
    and "get_compute_parameters m args = Inr [a, c, K]"
    and "t \<noteq> []"
  shows "compute_y solve_ivp m t args = (solve_ivp (dydt a c K) (0, Max (set t)) [y0] t, m)"
  using assms by (simp add: compute_y_def logistic_sigmoid_compute_y_def py_max_nonempty)

text \<open>
  Strictly increasing, non-negative times pass the tests of \<^verbatim>\<open>solve_ivp\<close>: the
  numerical method is run on them.
\<close>

lemma increasing_t_accepted:
  assumes "t \<noteq> []" and "sorted_wrt (<) t" and "list_all (\<lambda>x. 0 \<le> x) t"
  shows "scipy_solve_ivp method rhs (0, Max (set t)) y0 t = method rhs (0, Max (set t)) y0 t"
proof -
  have nonneg: "0 \<le> x" if "x \<in> set t" for x
    using assms(3) that by (simp add: list_all_iff)
  have le: "x \<le> Max (set t)" if "x \<in> set t" for x
    using that by simp
  have "Max (set t) \<in> set t"
    using assms(1) by (simp add: Max_in)
  then have "0 \<le> Max (set t)"
    by (rule nonneg)
  then have "t_eval_within (0, Max (set t)) t"
    using nonneg le by (simp add: t_eval_within_def list_all_iff)
  moreover have "t_eval_sorted (0, Max (set t)) t"
    using assms(2) \<open>0 \<le> Max (set t)\<close> by (simp add: t_eval_sorted_def)
  ultimately show ?thesis
    by (simp add: scipy_solve_ivp_def)
qed

text \<open>
  Times that are not strictly increasing are rejected by \<^verbatim>\<open>solve_ivp\<close>, whatever the
  numerical method.
\<close>

lemma unsorted_t_rejected:
  assumes "variant m = LogisticSigmoidGrowth"
    and "y_0 m = Some y0"
    and "get_compute_parameters m args = Inr [a, c, K]"
    and "t \<noteq> []" and "0 < Max (set t)"
    and "\<not> sorted_wrt (<) t"
  shows "compute_y (scipy_solve_ivp method) m t args = (Inl ValueError, m)"
proof -
  have "\<not> t_eval_sorted (0, Max (set t)) t"
    using assms(5,6) by (simp add: t_eval_sorted_def)
  then have "scipy_solve_ivp method (dydt a c K) (0, Max (set t)) [y0] t = Inl ValueError"
    by (simp add: scipy_solve_ivp_def)
  with logistic_sigmoid_nonempty_t [OF assms(1-4)] show ?thesis
    by simp
qed

text \<open>
  C9. The claim: with \<^verbatim>\<open>y_0\<close> set, forward evaluation succeeds on every sequence of
  non-negative times, sorted or not, and returns one value per time, in order. The code
  passes \<open>t\<close> to \<^verbatim>\<open>solve_ivp\<close> as it came. On the unsorted times \<open>[3, 1, 2]\<close>
  \<^verbatim>\<open>solve_ivp\<close> raises \<^verbatim>\<open>ValueError\<close> before any numerical method is run, whatever
  the method; on the empty sequence \<^verbatim>\<open>max(t)\<close> raises \<^verbatim>\<open>ValueError\<close> before
  \<^verbatim>\<open>solve_ivp\<close> is called. The closed-form classes accept both inputs.
\<close>

theorem logistic_sigmoid_rejects_unsorted_t:
  "fst (compute_y (scipy_solve_ivp method)
          \<lparr>variant = LogisticSigmoidGrowth, params = [(''a'', 1), (''c'', 1), (''K'', 100)],
           bounds = ([], []), y_0 = Some 1\<rparr> [3, 1, 2] []) = Inl ValueError
   \<and> fst (compute_y (scipy_solve_ivp method)
          \<lparr>variant = LogisticSigmoidGrowth, params = [(''a'', 1), (''c'', 1), (''K'', 100)],
           bounds = ([], []), y_0 = Some 1\<rparr> [] []) = Inl ValueError"
  by (auto simp: compute_y_def logistic_sigmoid_compute_y_def py_max_def
      get_compute_parameters_def check_params_def keys_def dict_get_def
      scipy_solve_ivp_def t_eval_within_def t_eval_sorted_def)

subsection \<open>Fitting\<close>

lemma dict_set_at:
  "k \<notin> set (keys pre) \<Longrightarrow> dict_set (pre @ (k, v) # rest) k w = pre @ (k, w) # rest"
  by (induction pre) (auto simp: keys_def)

text \<open>
  The loop of \<open>fit\<close>, started at position \<open>length pre\<close> with the entries \<open>pre\<close>
  already assigned: it pairs the remaining keys, in the dict's order, with the next
  fitted values.
\<close>

lemma assign_fitted_general:
  "distinct (keys pre @ ks) \<Longrightarrow> length vs = length ks \<Longrightarrow> length pre + length ks \<le> length fp \<Longrightarrow>
   assign_fitted (length pre) ks fp (pre @ zip ks vs)
     = (Inr (), pre @ zip ks (drop (length pre) fp))"
proof (induction ks arbitrary: pre vs)
  case Nil
  then show ?case by simp
next
  case (Cons k ks)
  then obtain v vs' where vs: "vs = v # vs'" by (cases vs) auto
  let ?pre = "pre @ [(k, fp ! length pre)]"
  have notin: "k \<notin> set (keys pre)" using Cons.prems(1) by (auto simp: keys_def)
  have d: "distinct (keys ?pre @ ks)" using Cons.prems(1) by (auto simp: keys_def)
  have l: "length vs' = length ks" using Cons.prems(2) vs by simp
  have b: "length ?pre + length ks \<le> length fp" using Cons.prems(3) by simp
  have lt: "length pre < length fp" using Cons.prems(3) by simp
  have "assign_fitted (length pre) (k # ks) fp (pre @ zip (k # ks) vs)
      = assign_fitted (length ?pre) ks fp (?pre @ zip ks vs')"
    using lt vs notin by (simp add: dict_set_at)
  also have "\<dots> = (Inr (), ?pre @ zip ks (drop (length ?pre) fp))"
    using Cons.IH [OF d l b] .
  also have "?pre @ zip ks (drop (length ?pre) fp) = pre @ zip (k # ks) (drop (length pre) fp)"
    using lt by (simp add: Cons_nth_drop_Suc [symmetric])
  finally show ?case .
qed

lemma assign_fitted_keys:
  assumes "distinct (keys d)" and "length (keys d) \<le> length fp"
  shows "assign_fitted 0 (keys d) fp d = (Inr (), zip (keys d) fp)"
proof -
  have "d = zip (keys d) (map snd d)" by (simp add: keys_def zip_map_fst_snd)
  then have "assign_fitted 0 (keys d) fp d
      = assign_fitted (length ([]::pydict)) (keys d) fp ([] @ zip (keys d) (map snd d))"
    by simp
  also have "\<dots> = (Inr (), [] @ zip (keys d) (drop (length ([]::pydict)) fp))"
    by (rule assign_fitted_general) (use assms in \<open>simp_all add: keys_def\<close>)
  finally show ?thesis by simp
qed

text \<open>
  What a successful \<open>fit\<close> stores: the \<open>i\<close>-th key of the dict, in insertion order,
  gets the \<open>i\<close>-th fitted value.
\<close>

lemma fit_success:
  assumes "distinct (keys (params m))"
    and "get_compute_parameters m [] = Inr start"
    and "curve_fit (\<lambda>t' args. fst (compute_y solve_ivp m t' args)) t y (bounds m) start = Inr fp"
    and "length (keys (params m)) \<le> length fp"
  shows "fit curve_fit solve_ivp m t y p0 = (Inr (), m\<lparr>params := zip (keys (params m)) fp\<rparr>)"
  using assms by (simp add: fit_def assign_fitted_keys)

text \<open>
  When the dict was built in signature order, that is the assignment by signature
  position.
\<close>

lemma fit_in_signature_order:
  assumes "keys (params m) = params_signature (variant m)"
    and "curve_fit (\<lambda>t' args. fst (compute_y solve_ivp m t' args)) t y (bounds m)
           (map (\<lambda>k. the (map_of (params m) k)) (params_signature (variant m))) = Inr fp"
    and "length fp = length (params_signature (variant m))"
  shows "fit curve_fit solve_ivp m t y p0
           = (Inr (), m\<lparr>params := zip (params_signature (variant m)) fp\<rparr>)"
proof -
  have "distinct (keys (params m))" using assms(1) by (simp add: sig_distinct)
  moreover have "get_compute_parameters m []
      = Inr (map (\<lambda>k. the (map_of (params m) k)) (params_signature (variant m)))"
    using assms(1) by (simp add: get_compute_parameters_stored)
  ultimately show ?thesis
    using assms fit_success [of m _ curve_fit solve_ivp t y fp p0] by simp
qed

text \<open>
  C1. The claim: after a successful fit every parameter name holds the fitted value at
  that name's position in the signature, also when the dict's insertion order is not the
  signature order. The code assigns by the dict's order. A \<^verbatim>\<open>LogisticGrowth\<close> built
  from \<^verbatim>\<open>{"K": 100, "a": 1, "t_0": 0}\<close> passes the constructor's check; when the
  optimizer returns \<open>(a, t_0, K) = (2, 3, 50)\<close>, \<^verbatim>\<open>fit\<close> stores \<open>K = 2\<close>, \<open>a = 3\<close>
  and \<open>t_0 = 50\<close>.
\<close>

theorem fit_assigns_in_insertion_order:
  "fit (returning_optimizer [2, 3, 50]) failing_integrator
     \<lparr>variant = LogisticGrowth, params = [(''K'', 100), (''a'', 1), (''t_0'', 0)],
      bounds = ([0, 0, 0], [10, 10, 1000]), y_0 = None\<rparr> [0, 1] [50, 73] []
   = (Inr (),
      \<lparr>variant = LogisticGrowth, params = [(''K'', 2), (''a'', 3), (''t_0'', 50)],
       bounds = ([0, 0, 0], [10, 10, 1000]), y_0 = None\<rparr>)"
  by (auto simp: fit_def get_compute_parameters_def check_params_def keys_def dict_get_def
      returning_optimizer_def)

lemma fit_ignores_p0: "fit curve_fit solve_ivp m t y p0 = fit curve_fit solve_ivp m t y []"
  by (simp add: fit_def)

text \<open>
  C2. The claim: \<^verbatim>\<open>fit(t, y, p0)\<close> starts the optimizer at \<open>p0\<close> when \<open>p0\<close> is
  given. The code never reads \<open>p0\<close>. With an optimizer that returns its starting point,
  \<^verbatim>\<open>fit(t, y, p0=[2, 3, 4])\<close> on a model holding \<open>(1, 0, 100)\<close> stores
  \<open>(1, 0, 100)\<close>: the optimizer was started at the stored parameters.
\<close>

theorem fit_p0_override_ignored:
  "fit identity_optimizer failing_integrator
     \<lparr>variant = LogisticGrowth, params = [(''a'', 1), (''t_0'', 0), (''K'', 100)],
      bounds = ([0, 0, 0], [10, 10, 1000]), y_0 = None\<rparr> [0, 1] [50, 73] [2, 3, 4]
   = (Inr (),
      \<lparr>variant = LogisticGrowth, params = [(''a'', 1), (''t_0'', 0), (''K'', 100)],
       bounds = ([0, 0, 0], [10, 10, 1000]), y_0 = None\<rparr>)"
  by (simp add: fit_def get_compute_parameters_def check_params_def keys_def dict_get_def
      identity_optimizer_def)

text \<open>
  The only path of \<open>fit\<close> that changes some entries and then raises is an index past the
  end of the fitted vector. With distinct keys and an optimizer that returns as many
  values as its starting point has, that path is never taken: a \<open>fit\<close> that raises
  leaves the object as it was.
\<close>

lemma fit_atomic:
  assumes "distinct (keys (params m))"
    and contract: "\<And>start fp.
      curve_fit (\<lambda>t' args. fst (compute_y solve_ivp m t' args)) t y (bounds m) start = Inr fp
        \<Longrightarrow> length fp = length start"
    and failed: "fst (fit curve_fit solve_ivp m t y p0) = Inl e"
  shows "snd (fit curve_fit solve_ivp m t y p0) = m"
proof (cases "get_compute_parameters m []")
  case (Inl e')
  then show ?thesis by (simp add: fit_def)
next
  case (Inr start)
  then have same: "set (keys (params m)) = set (params_signature (variant m))"
    and start: "start = map (\<lambda>k. the (map_of (params m) k)) (params_signature (variant m))"
    by (auto simp: get_compute_parameters_stored split: if_splits)
  have "card (set (keys (params m))) = length (keys (params m))"
    using assms(1) by (rule distinct_card)
  moreover have "card (set (params_signature (variant m))) = length (params_signature (variant m))"
    using sig_distinct by (rule distinct_card)
  ultimately have len: "length (keys (params m)) = length start"
    using same start by simp
  show ?thesis
  proof (cases "curve_fit (\<lambda>t' args. fst (compute_y solve_ivp m t' args)) t y (bounds m) start")
    case (Inl e')
    with Inr show ?thesis by (simp add: fit_def)
  next
    case fitted: (Inr fp)
    with contract have "length fp = length start" by simp
    with len have "length (keys (params m)) \<le> length fp" by simp
    with assms(1) Inr fitted have "fst (fit curve_fit solve_ivp m t y p0) = Inr ()"
      using fit_success [of m start curve_fit solve_ivp t y fp p0] by simp
    with failed show ?thesis by simp
  qed
qed

text \<open>
  C3. When the optimizer raises (no convergence, or a starting point outside the bounds),
  \<^verbatim>\<open>fit\<close> raises the same exception and the object, its \<open>params\<close> included, is
  exactly what it was before the call.
\<close>

theorem fit_failure_leaves_params:
  assumes "get_compute_parameters m [] = Inr start"
    and "curve_fit (\<lambda>t' args. fst (compute_y solve_ivp m t' args)) t y (bounds m) start = Inl e"
  shows "fit curve_fit solve_ivp m t y p0 = (Inl e, m)"
  using assms by (simp add: fit_def)

theorem fit_failure_leaves_params_witness:
  "fit (failing_optimizer ValueError) failing_integrator
     \<lparr>variant = RichardGrowth, params = [(''a'', 1), (''b'', 1), (''d'', 0), (''K'', 100)],
      bounds = ([2, 0, 0, 0], [10, 10, 10, 1000]), y_0 = None\<rparr> [0, 1] [50, 73] []
   = (Inl ValueError,
      \<lparr>variant = RichardGrowth, params = [(''a'', 1), (''b'', 1), (''d'', 0), (''K'', 100)],
       bounds = ([2, 0, 0, 0], [10, 10, 10, 1000]), y_0 = None\<rparr>)"
  using fit_failure_leaves_params [of
      "\<lparr>variant = RichardGrowth, params = [(''a'', 1), (''b'', 1), (''d'', 0), (''K'', 100)],
        bounds = ([2, 0, 0, 0], [10, 10, 10, 1000]), y_0 = None\<rparr>"
      "[1, 1, 0, 100]" "failing_optimizer ValueError" failing_integrator "[0, 1]" "[50, 73]"
      ValueError "[]"]
  by (simp add: get_compute_parameters_def check_params_def keys_def dict_get_def
      failing_optimizer_def)

end
